theory Spec2Isabelle
  imports Main "HOL-Library.AList"
begin

section \<open>The vote ledger of blogmaxxer-image-api\<close>

text \<open>
  The serverless functions \<^verbatim>\<open>api/vote.js\<close>, \<^verbatim>\<open>api/unvote.js\<close> and \<^verbatim>\<open>api/votes.js\<close>
  keep two JSON documents in a GitHub repository: \<^verbatim>\<open>data/data.json\<close> (the aggregate:
  the blog entries with their vote counts) and \<^verbatim>\<open>data/votes.json\<close> (the ledger: who
  voted for what, and when). This theory embeds them as functions over an explicit
  world: the documents, the clock, the other writers, a log of what was done, and
  what the process of \<^verbatim>\<open>api/vote.js\<close> has set on built-in objects.

  JSON objects are association lists read with \<open>map_of\<close> and written with
  \<open>AList.update\<close> and \<open>AList.delete\<close>; what a lookup that finds no own property
  inherits from the JavaScript runtime is modelled where a cast assigns through it
  (see \<open>record_vote\<close>). A number is an \<open>int\<close>; an absent field is \<open>None\<close>. The commit
  message of a write has no effect on any document and is left out.

  The source of \<^verbatim>\<open>api/vote.js\<close> is followed by an earlier version of the same handler,
  without \<^verbatim>\<open>processVote\<close> and its retries; what is embedded here is the version with
  \<^verbatim>\<open>processVote\<close>.
\<close>

subsection \<open>Documents\<close>

record entry =
  entry_id :: string
  entry_votes :: "int option"
  entry_rest :: "(string \<times> string) list"

record blog_data =
  entries :: "entry list"
  blog_rest :: "(string \<times> string) list"

record votes_data =
  votes :: "(string \<times> (string \<times> int) list) list"

datatype content = BlogDoc blog_data | VotesDoc votes_data

datatype path = DATA_PATH | VOTES_PATH

type_synonym sha = nat

subsection \<open>Configuration constants\<close>

definition RATE_LIMIT_WINDOW :: int where
  "RATE_LIMIT_WINDOW = 60 * 60 * 1000"

definition MAX_VOTES_PER_WINDOW :: int where
  "MAX_VOTES_PER_WINDOW = 10"

definition MAX_RETRIES :: nat where
  "MAX_RETRIES = 3"

subsection \<open>The rate limiter (\<^verbatim>\<open>checkRateLimit\<close>, vote.js 37-53)\<close>

record userLimits =
  count :: int
  windowStart :: int

type_synonym rateLimitMap = "(string \<times> userLimits) list"

text \<open>
  \<^verbatim>\<open>userLimits\<close> is the object stored in the map when there is one, so the reset of an
  expired window changes the stored object in place; a fresh default object is only
  stored by \<^verbatim>\<open>rateLimitMap.set\<close>, which the refusal returns before.
\<close>

definition checkRateLimit :: "int \<Rightarrow> string \<Rightarrow> rateLimitMap \<Rightarrow> bool \<times> rateLimitMap" where
  "checkRateLimit now ipHash rl =
     (let userLimits0 = (case map_of rl ipHash of
                           Some u \<Rightarrow> u
                         | None \<Rightarrow> \<lparr>count = 0, windowStart = now\<rparr>);
          expired = (now - windowStart userLimits0 > RATE_LIMIT_WINDOW);
          userLimits1 = (if expired then \<lparr>count = 0, windowStart = now\<rparr> else userLimits0);
          rl1 = (if expired \<and> map_of rl ipHash \<noteq> None
                 then AList.update ipHash userLimits1 rl else rl)
      in if count userLimits1 \<ge> MAX_VOTES_PER_WINDOW then (False, rl1)
         else (True, AList.update ipHash (userLimits1\<lparr>count := count userLimits1 + 1\<rparr>) rl1))"

text \<open>Successive calls for one identity, at the given times; the answers in order.\<close>

fun allow_calls :: "string \<Rightarrow> int list \<Rightarrow> rateLimitMap \<Rightarrow> bool list \<times> rateLimitMap" where
  "allow_calls ipHash [] rl = ([], rl)"
| "allow_calls ipHash (now # ts) rl =
     (case checkRateLimit now ipHash rl of
        (ok, rl1) \<Rightarrow> (case allow_calls ipHash ts rl1 of (oks, rl2) \<Rightarrow> (ok # oks, rl2)))"

subsection \<open>The document store and its environment\<close>

record store =
  data_file :: "(content \<times> sha) option"
  votes_file :: "(content \<times> sha) option"
  next_sha :: sha

text \<open>
  What happens between two store calls of one request: another writer changes the
  store, or the next call fails with an HTTP status of its own.
\<close>

datatype interference = Concurrent "store \<Rightarrow> store" | Fault nat

text \<open>
  What a request does that can be seen from outside: the store calls with what a read
  returned and what a write sent, the delays, and the two \<^verbatim>\<open>console.log\<close> lines
  (\<^verbatim>\<open>Conflict detected, retrying (attempt n/3)\<close> of \<^verbatim>\<open>updateGitHubFile\<close> and
  \<^verbatim>\<open>Vote conflict, retrying attempt n/3\<close> of the outer loop).
\<close>

datatype event =
    Get path "content option"
  | Put path content "sha option"
  | Sleep nat
  | ConflictDetected nat
  | ConflictRetry nat

text \<open>
  The properties that casts served by the process of \<^verbatim>\<open>api/vote.js\<close> have set on
  built-in objects of the JavaScript runtime, under the name of \<open>Object.prototype\<close> that
  leads to the object (see \<open>record_vote\<close> below). They live as long as the process.
\<close>

type_synonym runtime = "(string \<times> (string \<times> int) list) list"

record world =
  st :: store
  env :: "interference list"
  clock :: int
  log :: "event list"
  runtime :: runtime

datatype error = HttpError nat | Error string | TypeError

fun status :: "error \<Rightarrow> nat option" where
  "status (HttpError n) = Some n"
| "status (Error m) = None"
| "status TypeError = None"

definition slot :: "path \<Rightarrow> store \<Rightarrow> (content \<times> sha) option" where
  "slot p s = (case p of DATA_PATH \<Rightarrow> data_file s | VOTES_PATH \<Rightarrow> votes_file s)"

definition set_slot :: "path \<Rightarrow> content \<Rightarrow> store \<Rightarrow> store" where
  "set_slot p c s =
     (case p of
        DATA_PATH \<Rightarrow> s\<lparr>data_file := Some (c, next_sha s), next_sha := next_sha s + 1\<rparr>
      | VOTES_PATH \<Rightarrow> s\<lparr>votes_file := Some (c, next_sha s), next_sha := next_sha s + 1\<rparr>)"

text \<open>The next action of the environment happens just before a store call is served.\<close>

definition arrive :: "world \<Rightarrow> nat option \<times> world" where
  "arrive w =
     (case env w of
        [] \<Rightarrow> (None, w)
      | Concurrent f # r \<Rightarrow> (None, w\<lparr>st := f (st w), env := r\<rparr>)
      | Fault n # r \<Rightarrow> (Some n, w\<lparr>env := r\<rparr>))"

definition record_event :: "event \<Rightarrow> world \<Rightarrow> world" where
  "record_event e w = w\<lparr>log := log w @ [e]\<rparr>"

text \<open>
  Modelled from the spec: the versioned document store is an external collaborator
  (octokit's \<^verbatim>\<open>repos.getContent\<close>) with no code in the repository. Following
  sections 3 and 6 of the spec, \<open>get\<close> returns the content and the version token of a
  path, or not-found (status 404).
\<close>

definition getContent :: "path \<Rightarrow> world \<Rightarrow> (error + content \<times> sha) \<times> world" where
  "getContent p w =
     (case arrive w of
        (Some n, w1) \<Rightarrow> (Inl (HttpError n), record_event (Get p None) w1)
      | (None, w1) \<Rightarrow>
          (case slot p (st w1) of
             None \<Rightarrow> (Inl (HttpError 404), record_event (Get p None) w1)
           | Some (c, s) \<Rightarrow> (Inr (c, s), record_event (Get p (Some c)) w1)))"

text \<open>
  Modelled from the spec: the conditional write of the store (octokit's
  \<^verbatim>\<open>repos.createOrUpdateFileContents\<close>), which has no code in the repository either.
  Following sections 3 and 6 of the spec, \<open>put\<close> succeeds when the expected token is the
  current one (no token for a path that does not exist yet) and installs a fresh token;
  it fails with a conflict (status 409) when the tokens differ, and with not-found
  (status 404) when a token is expected of a path that does not exist.
\<close>

definition createOrUpdateFileContents ::
  "path \<Rightarrow> content \<Rightarrow> sha option \<Rightarrow> world \<Rightarrow> (error + unit) \<times> world" where
  "createOrUpdateFileContents p c sha w =
     (case arrive w of
        (Some n, w1) \<Rightarrow> (Inl (HttpError n), record_event (Put p c sha) w1)
      | (None, w1) \<Rightarrow>
          (let w2 = record_event (Put p c sha) w1 in
           case slot p (st w2) of
             None \<Rightarrow>
               (case sha of
                  None \<Rightarrow> (Inr (), w2\<lparr>st := set_slot p c (st w2)\<rparr>)
                | Some x \<Rightarrow> (Inl (HttpError 404), w2))
           | Some (old, cur) \<Rightarrow>
               if sha = Some cur then (Inr (), w2\<lparr>st := set_slot p c (st w2)\<rparr>)
               else (Inl (HttpError 409), w2)))"

definition sleep :: "nat \<Rightarrow> world \<Rightarrow> world" where
  "sleep ms w = record_event (Sleep ms) (w\<lparr>clock := clock w + int ms\<rparr>)"

subsection \<open>\<^verbatim>\<open>getGitHubFile\<close> and \<^verbatim>\<open>updateGitHubFile\<close> (vote.js 56-107, unvote.js 32-79)\<close>

type_synonym github_file = "content option \<times> sha option"

definition getGitHubFile :: "path \<Rightarrow> world \<Rightarrow> (error + github_file) \<times> world" where
  "getGitHubFile p w =
     (case getContent p w of
        (Inr (c, s), w1) \<Rightarrow> (Inr (Some c, Some s), w1)
      | (Inl err, w1) \<Rightarrow>
          if status err = Some 404 then (Inr (None, None), w1) else (Inl err, w1))"

function updateGitHubFile ::
  "path \<Rightarrow> content \<Rightarrow> sha option \<Rightarrow> nat \<Rightarrow> world \<Rightarrow> (error + unit) \<times> world" where
  "updateGitHubFile p c sha retryCount w =
     (case createOrUpdateFileContents p c sha w of
        (Inr u, w1) \<Rightarrow> (Inr (), w1)
      | (Inl err, w1) \<Rightarrow>
          if status err = Some 409 \<and> retryCount < MAX_RETRIES then
            (case getGitHubFile p (sleep 500 (record_event (ConflictDetected (retryCount + 1)) w1)) of
               (Inl err2, w2) \<Rightarrow> (Inl err2, w2)
             | (Inr freshFile, w2) \<Rightarrow> updateGitHubFile p c (snd freshFile) (retryCount + 1) w2)
          else (Inl err, w1))"
  by pat_completeness auto
termination
  by (relation "measure (\<lambda>(p, c, sha, retryCount, w). MAX_RETRIES - retryCount)") auto

declare updateGitHubFile.simps [simp del]

subsection \<open>Casting a vote (\<^verbatim>\<open>processVote\<close>, vote.js 110-192)\<close>

datatype result = Success int | AlreadyVoted | NotVoted

text \<open>\<^verbatim>\<open>blogEntry.votes || 0\<close>: an absent count and a count of zero both read as zero.\<close>

definition votes_or_0 :: "entry \<Rightarrow> int" where
  "votes_or_0 e = (case entry_votes e of None \<Rightarrow> 0 | Some v \<Rightarrow> v)"

text \<open>
  \<^verbatim>\<open>blogEntry\<close> is the first entry of \<^verbatim>\<open>blogData.entries\<close> with the id, found by
  \<^verbatim>\<open>find\<close>; assigning to \<^verbatim>\<open>blogEntry.votes\<close> changes that entry inside the array.
\<close>

fun set_votes :: "string \<Rightarrow> int \<Rightarrow> entry list \<Rightarrow> entry list" where
  "set_votes blogId v [] = []"
| "set_votes blogId v (e # es) =
     (if entry_id e = blogId then e\<lparr>entry_votes := Some v\<rparr> # es
      else e # set_votes blogId v es)"

text \<open>
  \<^verbatim>\<open>votesData.votes[blogId]?.[ipHash]\<close> as a condition, in \<^verbatim>\<open>api/unvote.js\<close> and
  \<^verbatim>\<open>api/votes.js\<close>: present and not zero. Each file under \<^verbatim>\<open>api/\<close> is a function of its
  own, and these two assign to no object but the parsed documents, so in their
  processes a built-in object has no property named by an identity token: for an item
  whose name is inherited and not in the ledger the lookup finds the built-in object
  and then nothing, which is the \<open>False\<close> of the first case. \<^verbatim>\<open>api/vote.js\<close> does assign
  through such a lookup; its test is \<open>record_vote\<close> below.
\<close>

definition has_voted :: "(string \<times> (string \<times> int) list) list \<Rightarrow> string \<Rightarrow> string \<Rightarrow> bool" where
  "has_voted vs blogId ipHash =
     (case map_of vs blogId of
        None \<Rightarrow> False
      | Some m \<Rightarrow> (case map_of m ipHash of None \<Rightarrow> False | Some t \<Rightarrow> t \<noteq> 0))"

text \<open>
  The two reads of \<^verbatim>\<open>Promise.all\<close>: both requests are issued, and the attempt fails
  when either fails.
\<close>

definition read_both :: "world \<Rightarrow> (error + github_file \<times> github_file) \<times> world" where
  "read_both w =
     (case getGitHubFile DATA_PATH w of
        (r1, w1) \<Rightarrow>
          (case getGitHubFile VOTES_PATH w1 of
             (r2, w2) \<Rightarrow>
               (case r1 of
                  Inl err \<Rightarrow> (Inl err, w2)
                | Inr dataFile \<Rightarrow>
                    (case r2 of
                       Inl err \<Rightarrow> (Inl err, w2)
                     | Inr votesFile \<Rightarrow> (Inr (dataFile, votesFile), w2)))))"

text \<open>The two writes, the ledger first; the second is not tried when the first throws.\<close>

definition write_both ::
  "votes_data \<Rightarrow> sha option \<Rightarrow> blog_data \<Rightarrow> sha option \<Rightarrow> world \<Rightarrow> (error + unit) \<times> world" where
  "write_both votesData votesSha blogData dataSha w =
     (case updateGitHubFile VOTES_PATH (VotesDoc votesData) votesSha 0 w of
        (Inl err, w1) \<Rightarrow> (Inl err, w1)
      | (Inr u, w1) \<Rightarrow> updateGitHubFile DATA_PATH (BlogDoc blogData) dataSha 0 w1)"

text \<open>
  \<^verbatim>\<open>votesData.votes\<close> is a plain object, so \<^verbatim>\<open>votesData.votes[blogId]\<close> that finds no
  own property goes on to \<open>Object.prototype\<close>. There it finds a built-in value for twelve
  names (the function \<open>Object\<close> for \<^verbatim>\<open>constructor\<close>, \<open>Object.prototype\<close> itself for
  \<^verbatim>\<open>__proto__\<close>, a method for each of the others), or a number that an earlier cast of
  the process has put on \<open>Object.prototype\<close>, or nothing.
\<close>

definition inherited_names :: "string list" where
  "inherited_names =
     [''constructor'', ''__proto__'', ''hasOwnProperty'', ''isPrototypeOf'',
      ''propertyIsEnumerable'', ''toLocaleString'', ''toString'', ''valueOf'',
      ''__defineGetter__'', ''__defineSetter__'', ''__lookupGetter__'', ''__lookupSetter__'']"

datatype item_value = Own "(string \<times> int) list" | Inherited string | Primitive int | Undefined

definition runtime_props :: "runtime \<Rightarrow> string \<Rightarrow> (string \<times> int) list" where
  "runtime_props rt name = (case map_of rt name of None \<Rightarrow> [] | Some ps \<Rightarrow> ps)"

definition polluted :: "runtime \<Rightarrow> (string \<times> int) list" where
  "polluted rt = runtime_props rt ''__proto__''"

definition get_item :: "runtime \<Rightarrow> (string \<times> (string \<times> int) list) list \<Rightarrow> string \<Rightarrow> item_value" where
  "get_item rt vs blogId =
     (case map_of vs blogId of
        Some m \<Rightarrow> Own m
      | None \<Rightarrow>
          if blogId \<in> set inherited_names then Inherited blogId
          else (case map_of (polluted rt) blogId of
                  Some t \<Rightarrow> Primitive t
                | None \<Rightarrow> Undefined))"

text \<open>\<^verbatim>\<open>!votesData.votes[blogId]\<close>: nothing found, or the number zero.\<close>

fun falsy :: "item_value \<Rightarrow> bool" where
  "falsy Undefined = True"
| "falsy (Primitive t) = (t = 0)"
| "falsy (Own m) = False"
| "falsy (Inherited name) = False"

text \<open>
  \<^verbatim>\<open>votesData.votes[blogId][ipHash]\<close>: the own property of what the first lookup found
  (a number has none), and after it what \<open>Object.prototype\<close> has been given. An identity
  token is a SHA-256 digest written in hexadecimal, which is not the name of any
  built-in property.
\<close>

definition get_vote :: "runtime \<Rightarrow> item_value \<Rightarrow> string \<Rightarrow> int option" where
  "get_vote rt item ipHash =
     (case (case item of
              Own m \<Rightarrow> map_of m ipHash
            | Inherited name \<Rightarrow> map_of (runtime_props rt name) ipHash
            | Primitive t \<Rightarrow> None
            | Undefined \<Rightarrow> None) of
        Some t \<Rightarrow> Some t
      | None \<Rightarrow> map_of (polluted rt) ipHash)"

text \<open>
  Lines 135-149 of vote.js: the ledger object of the item is created when the lookup
  is falsy, the cast is refused (\<open>None\<close>) when the identity's property is truthy, and
  otherwise the time is assigned to that property. The assignment changes the ledger
  when the item has a ledger object of its own; through an inherited name it changes
  the built-in object and leaves the ledger as it is; on a number it is lost.
\<close>

definition record_vote ::
  "runtime \<Rightarrow> (string \<times> (string \<times> int) list) list \<Rightarrow> string \<Rightarrow> string \<Rightarrow> int
     \<Rightarrow> ((string \<times> (string \<times> int) list) list \<times> runtime) option" where
  "record_vote rt vs blogId ipHash now =
     (let item0 = get_item rt vs blogId;
          vs1 = (if falsy item0 then AList.update blogId [] vs else vs);
          item = (if falsy item0 then Own [] else item0)
      in case get_vote rt item ipHash of
           Some t \<Rightarrow>
             if t \<noteq> 0 then None
             else Some (case item of
                          Own m \<Rightarrow> (AList.update blogId (AList.update ipHash now m) vs1, rt)
                        | Inherited name \<Rightarrow>
                            (vs1, AList.update name
                                    (AList.update ipHash now (runtime_props rt name)) rt)
                        | Primitive n \<Rightarrow> (vs1, rt)
                        | Undefined \<Rightarrow> (vs1, rt))
         | None \<Rightarrow>
             Some (case item of
                     Own m \<Rightarrow> (AList.update blogId (AList.update ipHash now m) vs1, rt)
                   | Inherited name \<Rightarrow>
                       (vs1, AList.update name
                               (AList.update ipHash now (runtime_props rt name)) rt)
                   | Primitive n \<Rightarrow> (vs1, rt)
                   | Undefined \<Rightarrow> (vs1, rt)))"

text \<open>The body of the \<^verbatim>\<open>try\<close> block of \<^verbatim>\<open>processVote\<close>: one attempt.\<close>

definition vote_attempt :: "string \<Rightarrow> string \<Rightarrow> world \<Rightarrow> (error + result) \<times> world" where
  "vote_attempt blogId ipHash w =
     (case read_both w of
        (Inl err, w1) \<Rightarrow> (Inl err, w1)
      | (Inr (dataFile, votesFile), w1) \<Rightarrow>
          (case fst dataFile of
             None \<Rightarrow> (Inl (Error ''Data file not found''), w1)
           | Some (VotesDoc d) \<Rightarrow> (Inl TypeError, w1)
           | Some (BlogDoc blogData) \<Rightarrow>
               (case find (\<lambda>e. entry_id e = blogId) (entries blogData) of
                  None \<Rightarrow> (Inl (Error ''Blog not found''), w1)
                | Some blogEntry \<Rightarrow>
                    (case (case fst votesFile of None \<Rightarrow> VotesDoc \<lparr>votes = []\<rparr> | Some c \<Rightarrow> c) of
                       BlogDoc d \<Rightarrow> (Inl TypeError, w1)
                     | VotesDoc votesData \<Rightarrow>
                         (case record_vote (runtime w1) (votes votesData) blogId ipHash (clock w1) of
                            None \<Rightarrow> (Inr AlreadyVoted, w1)
                          | Some (vs, rt) \<Rightarrow>
                              (let votesData' = votesData\<lparr>votes := vs\<rparr>;
                                   newVoteCount = votes_or_0 blogEntry + 1;
                                   blogData' = blogData\<lparr>entries :=
                                      set_votes blogId newVoteCount (entries blogData)\<rparr>
                               in case write_both votesData' (snd votesFile) blogData' (snd dataFile)
                                         (w1\<lparr>runtime := rt\<rparr>) of
                                    (Inl err, w2) \<Rightarrow> (Inl err, w2)
                                  | (Inr u, w2) \<Rightarrow> (Inr (Success newVoteCount), w2)))))))"

text \<open>
  The \<^verbatim>\<open>while (attempt < MAX_RETRIES)\<close> loop with its \<^verbatim>\<open>catch\<close>: a conflict is retried
  after \<^verbatim>\<open>1000 * attempt\<close> milliseconds while attempts are left, anything else is thrown
  again.
\<close>

function processVote_loop :: "nat \<Rightarrow> string \<Rightarrow> string \<Rightarrow> world \<Rightarrow> (error + result) \<times> world" where
  "processVote_loop attempt blogId ipHash w =
     (if attempt < MAX_RETRIES then
        (case vote_attempt blogId ipHash w of
           (Inr r, w1) \<Rightarrow> (Inr r, w1)
         | (Inl err, w1) \<Rightarrow>
             if status err = Some 409 \<and> attempt + 1 < MAX_RETRIES
             then processVote_loop (attempt + 1) blogId ipHash
                    (sleep (1000 * (attempt + 1)) (record_event (ConflictRetry (attempt + 1)) w1))
             else (Inl err, w1))
      else (Inl (Error ''Failed to process vote after multiple retries''), w))"
  by pat_completeness auto
termination
  by (relation "measure (\<lambda>(attempt, blogId, ipHash, w). MAX_RETRIES - attempt)") auto

declare processVote_loop.simps [simp del]

definition processVote :: "string \<Rightarrow> string \<Rightarrow> world \<Rightarrow> (error + result) \<times> world" where
  "processVote blogId ipHash w = processVote_loop 0 blogId ipHash w"

subsection \<open>Retracting a vote (\<^verbatim>\<open>processUnvote\<close>, unvote.js 82-161)\<close>

text \<open>
  \<^verbatim>\<open>delete votesData.votes[blogId][ipHash]\<close> is only reached when the item has a
  ledger object, which then loses the key.
\<close>

definition delete_vote ::
  "string \<Rightarrow> string \<Rightarrow> (string \<times> (string \<times> int) list) list \<Rightarrow> (string \<times> (string \<times> int) list) list" where
  "delete_vote blogId ipHash vs =
     (case map_of vs blogId of
        None \<Rightarrow> vs
      | Some m \<Rightarrow> AList.update blogId (AList.delete ipHash m) vs)"

definition unvote_attempt :: "string \<Rightarrow> string \<Rightarrow> world \<Rightarrow> (error + result) \<times> world" where
  "unvote_attempt blogId ipHash w =
     (case read_both w of
        (Inl err, w1) \<Rightarrow> (Inl err, w1)
      | (Inr (dataFile, votesFile), w1) \<Rightarrow>
          (case fst dataFile of
             None \<Rightarrow> (Inl (Error ''Data file not found''), w1)
           | Some dataContent \<Rightarrow>
               (case fst votesFile of
                  None \<Rightarrow> (Inl (Error ''Votes file not found''), w1)
                | Some votesContent \<Rightarrow>
                    (case dataContent of
                       VotesDoc d \<Rightarrow> (Inl TypeError, w1)
                     | BlogDoc blogData \<Rightarrow>
                         (case find (\<lambda>e. entry_id e = blogId) (entries blogData) of
                            None \<Rightarrow> (Inl (Error ''Blog not found''), w1)
                          | Some blogEntry \<Rightarrow>
                              (case votesContent of
                                 BlogDoc d \<Rightarrow> (Inl TypeError, w1)
                               | VotesDoc votesData \<Rightarrow>
                                   if \<not> has_voted (votes votesData) blogId ipHash
                                   then (Inr NotVoted, w1)
                                   else
                                     (let votesData' = votesData\<lparr>votes :=
                                            delete_vote blogId ipHash (votes votesData)\<rparr>;
                                          newVoteCount = max 0 (votes_or_0 blogEntry - 1);
                                          blogData' = blogData\<lparr>entries :=
                                            set_votes blogId newVoteCount (entries blogData)\<rparr>
                                      in case write_both votesData' (snd votesFile)
                                                blogData' (snd dataFile) w1 of
                                           (Inl err, w2) \<Rightarrow> (Inl err, w2)
                                         | (Inr u, w2) \<Rightarrow> (Inr (Success newVoteCount), w2))))))))"

function processUnvote_loop :: "nat \<Rightarrow> string \<Rightarrow> string \<Rightarrow> world \<Rightarrow> (error + result) \<times> world" where
  "processUnvote_loop attempt blogId ipHash w =
     (if attempt < MAX_RETRIES then
        (case unvote_attempt blogId ipHash w of
           (Inr r, w1) \<Rightarrow> (Inr r, w1)
         | (Inl err, w1) \<Rightarrow>
             if status err = Some 409 \<and> attempt + 1 < MAX_RETRIES
             then processUnvote_loop (attempt + 1) blogId ipHash
                    (sleep (1000 * (attempt + 1)) (record_event (ConflictRetry (attempt + 1)) w1))
             else (Inl err, w1))
      else (Inl (Error ''Failed to process unvote after multiple retries''), w))"
  by pat_completeness auto
termination
  by (relation "measure (\<lambda>(attempt, blogId, ipHash, w). MAX_RETRIES - attempt)") auto

declare processUnvote_loop.simps [simp del]

definition processUnvote :: "string \<Rightarrow> string \<Rightarrow> world \<Rightarrow> (error + result) \<times> world" where
  "processUnvote blogId ipHash w = processUnvote_loop 0 blogId ipHash w"

subsection \<open>The request handlers (vote.js 194-245, votes.js 47-98)\<close>

text \<open>
  A request as the handlers read it: the method, \<^verbatim>\<open>req.body.blogId\<close> when there is
  one, and the address \<^verbatim>\<open>getRealIP\<close> returns. \<^verbatim>\<open>hashIP\<close> is a salted SHA-256; the
  handlers take it as a parameter.
\<close>

record request =
  req_method :: string
  blogId :: "string option"
  ip :: string

record vote_info =
  info_id :: string
  info_votes :: int
  userVoted :: bool

datatype body =
    NoBody
  | ErrorBody string
  | ResultBody result
  | EntriesBody "vote_info list"

datatype response = Response nat body

definition vote_handler ::
  "(string \<Rightarrow> string) \<Rightarrow> request \<Rightarrow> rateLimitMap \<Rightarrow> world \<Rightarrow> response \<times> rateLimitMap \<times> world" where
  "vote_handler hashIP req rl w =
     (if req_method req = ''OPTIONS'' then (Response 200 NoBody, rl, w)
      else if req_method req \<noteq> ''POST'' then (Response 405 (ErrorBody ''Method not allowed''), rl, w)
      else
        (case blogId req of
           None \<Rightarrow> (Response 400 (ErrorBody ''blogId is required''), rl, w)
         | Some b \<Rightarrow>
             if b = [] then (Response 400 (ErrorBody ''blogId is required''), rl, w)
             else
               (let ipHash = hashIP (ip req) in
                case checkRateLimit (clock w) ipHash rl of
                  (allowed, rl1) \<Rightarrow>
                    if \<not> allowed
                    then (Response 429 (ErrorBody ''Rate limit exceeded. Please try again later.''), rl1, w)
                    else
                      (case processVote b ipHash w of
                         (Inl err, w1) \<Rightarrow> (Response 500 (ErrorBody ''Failed to process vote''), rl1, w1)
                       | (Inr (Success n), w1) \<Rightarrow> (Response 200 (ResultBody (Success n)), rl1, w1)
                       | (Inr r, w1) \<Rightarrow> (Response 400 (ResultBody r), rl1, w1)))))"

text \<open>
  \<^verbatim>\<open>getGitHubFile\<close> of votes.js returns the parsed content, or null for a 404.
\<close>

definition getGitHubFile_votes :: "path \<Rightarrow> world \<Rightarrow> (error + content option) \<times> world" where
  "getGitHubFile_votes p w =
     (case getContent p w of
        (Inr (c, s), w1) \<Rightarrow> (Inr (Some c), w1)
      | (Inl err, w1) \<Rightarrow> if status err = Some 404 then (Inr None, w1) else (Inl err, w1))"

definition votes_handler ::
  "(string \<Rightarrow> string) \<Rightarrow> request \<Rightarrow> world \<Rightarrow> response \<times> world" where
  "votes_handler hashIP req w =
     (if req_method req = ''OPTIONS'' then (Response 200 NoBody, w)
      else if req_method req \<noteq> ''GET'' then (Response 405 (ErrorBody ''Method not allowed''), w)
      else
        (let ipHash = hashIP (ip req) in
         case getGitHubFile_votes DATA_PATH w of
           (r1, w1) \<Rightarrow>
             (case getGitHubFile_votes VOTES_PATH w1 of
                (r2, w2) \<Rightarrow>
                  (case r1 of
                     Inl err \<Rightarrow> (Response 500 (ErrorBody ''Failed to fetch votes''), w2)
                   | Inr blogData \<Rightarrow>
                       (case r2 of
                          Inl err \<Rightarrow> (Response 500 (ErrorBody ''Failed to fetch votes''), w2)
                        | Inr votesData \<Rightarrow>
                            (case blogData of
                               None \<Rightarrow> (Response 500 (ErrorBody ''Data file not found''), w2)
                             | Some (VotesDoc d) \<Rightarrow>
                                 (Response 500 (ErrorBody ''Failed to fetch votes''), w2)
                             | Some (BlogDoc bd) \<Rightarrow>
                                 (let vs = (case votesData of
                                              Some (VotesDoc vd) \<Rightarrow> votes vd
                                            | Some (BlogDoc d) \<Rightarrow> []
                                            | None \<Rightarrow> [])
                                  in (Response 200 (EntriesBody
                                        (map (\<lambda>entry.
                                               \<lparr>info_id = entry_id entry,
                                                info_votes = votes_or_0 entry,
                                                userVoted = has_voted vs (entry_id entry) ipHash\<rparr>)
                                             (entries bd))), w2))))))))"

subsection \<open>The rate limiter in the words of the specification\<close>

text \<open>
  The window of an identity at a call, as section 4.2 of the specification describes
  it: the stored window, a new one \<open>{count: 0, windowStart: now}\<close> for an identity
  without one, and reset to that once \<open>now - windowStart\<close> exceeds the window length.
\<close>

definition current_window :: "int \<Rightarrow> string \<Rightarrow> rateLimitMap \<Rightarrow> userLimits" where
  "current_window now ipHash rl =
     (case map_of rl ipHash of
        None \<Rightarrow> \<lparr>count = 0, windowStart = now\<rparr>
      | Some u \<Rightarrow> if now - windowStart u > RATE_LIMIT_WINDOW
                  then \<lparr>count = 0, windowStart = now\<rparr> else u)"

subsection \<open>Reading documents, logs and results\<close>

text \<open>
  What the theorems say about a store: the count of an item as \<^verbatim>\<open>find\<close> and
  \<^verbatim>\<open>votes || 0\<close> read it, the ledger (empty when the document is missing), and the
  time recorded for an identity under an item.
\<close>

definition voteCount :: "store \<Rightarrow> string \<Rightarrow> int option" where
  "voteCount s b =
     (case data_file s of
        Some (BlogDoc bd, x) \<Rightarrow> map_option votes_or_0 (find (\<lambda>e. entry_id e = b) (entries bd))
      | _ \<Rightarrow> None)"

definition ledger_doc :: "store \<Rightarrow> votes_data" where
  "ledger_doc s = (case votes_file s of Some (VotesDoc vd, x) \<Rightarrow> vd | _ \<Rightarrow> \<lparr>votes = []\<rparr>)"

definition ledger :: "store \<Rightarrow> (string \<times> (string \<times> int) list) list" where
  "ledger s = votes (ledger_doc s)"

definition castAt :: "store \<Rightarrow> string \<Rightarrow> string \<Rightarrow> int option" where
  "castAt s b i = (case map_of (ledger s) b of None \<Rightarrow> None | Some m \<Rightarrow> map_of m i)"

text \<open>
  The documents a request writes, from the documents it read: the ledger with the
  entry \<open>votes[b][i] = t\<close> set, the ledger with the entry deleted, and the aggregate
  with the count of the first entry \<open>b\<close> set to \<open>v\<close>.
\<close>

definition cast_ledger :: "string \<Rightarrow> string \<Rightarrow> int \<Rightarrow> votes_data \<Rightarrow> votes_data" where
  "cast_ledger b i t vd =
     vd\<lparr>votes := AList.update b
            (AList.update i t (case map_of (votes vd) b of None \<Rightarrow> [] | Some m \<Rightarrow> m)) (votes vd)\<rparr>"





text \<open>
  The writes of a log in order, and the events of the outer loop: its
  \<^verbatim>\<open>console.log\<close> and its delay (the delay of \<^verbatim>\<open>updateGitHubFile\<close> is always 500).
\<close>

fun puts_of :: "event list \<Rightarrow> (path \<times> content) list" where
  "puts_of [] = []"
| "puts_of (Put p c s # es) = (p, c) # puts_of es"
| "puts_of (e # es) = puts_of es"






subsection \<open>The example of the specification\<close>

text \<open>
  Section 8: the aggregate \<^verbatim>\<open>{entries:[{id:"a1",votes:3}]}\<close> and the ledger
  \<^verbatim>\<open>{votes:{}}\<close>, with no other writer.
\<close>

definition example_entry :: entry where
  "example_entry = \<lparr>entry_id = ''a1'', entry_votes = Some 3, entry_rest = []\<rparr>"

definition example_store :: store where
  "example_store =
     \<lparr>data_file = Some (BlogDoc \<lparr>entries = [example_entry], blog_rest = []\<rparr>, 0),
      votes_file = Some (VotesDoc \<lparr>votes = []\<rparr>, 1),
      next_sha = 2\<rparr>"

definition example_world :: world where
  "example_world = \<lparr>st = example_store, env = [], clock = 1700000000000, log = [], runtime = []\<rparr>"

text \<open>The same aggregate when the ledger document does not exist.\<close>

definition no_ledger_world :: world where
  "no_ledger_world = example_world\<lparr>st := example_store\<lparr>votes_file := None\<rparr>\<rparr>"


text \<open>
  An aggregate with fields of its own, an entry before the item and a second entry
  with the id of the item, and a ledger in which \<open>h1\<close> has voted for the item.
\<close>

definition rich_store :: store where
  "rich_store =
     \<lparr>data_file = Some (BlogDoc
          \<lparr>entries = [\<lparr>entry_id = ''a0'', entry_votes = Some 7, entry_rest = [(''title'', ''Z'')]\<rparr>,
                      \<lparr>entry_id = ''a1'', entry_votes = Some 3, entry_rest = [(''title'', ''A'')]\<rparr>,
                      \<lparr>entry_id = ''a1'', entry_votes = None, entry_rest = [(''title'', ''B'')]\<rparr>],
           blog_rest = [(''updated'', ''2024'')]\<rparr>, 0),
      votes_file = Some (VotesDoc \<lparr>votes = [(''a1'', [(''h1'', 1690000000000)])]\<rparr>, 1),
      next_sha = 2\<rparr>"

definition rich_world :: world where
  "rich_world = \<lparr>st = rich_store, env = [], clock = 1700000000000, log = [], runtime = []\<rparr>"

text \<open>
  The example with a ledger in which the time recorded for \<open>h1\<close> under the item is
  zero, and the example without its aggregate document.
\<close>

definition epoch_world :: world where
  "epoch_world =
     example_world\<lparr>st := example_store\<lparr>votes_file :=
        Some (VotesDoc \<lparr>votes = [(''a1'', [(''h1'', 0)])]\<rparr>, 1)\<rparr>\<rparr>"

definition no_data_world :: world where
  "no_data_world = example_world\<lparr>st := example_store\<lparr>data_file := None\<rparr>\<rparr>"

text \<open>Requests of the address \<open>h1\<close>, which the examples take as its own token.\<close>

definition get_request :: request where
  "get_request = \<lparr>req_method = ''GET'', blogId = None, ip = ''h1''\<rparr>"

definition post_request :: "string \<Rightarrow> request" where
  "post_request b = \<lparr>req_method = ''POST'', blogId = Some b, ip = ''h1''\<rparr>"

subsection \<open>Two worlds with another writer\<close>

text \<open>
  In \<open>busy_world\<close> another writer commits to the ledger before every store call of
  the request, so that every version the request has read is stale when it writes.
\<close>

definition ledger_commit :: "store \<Rightarrow> store" where
  "ledger_commit s = (case votes_file s of None \<Rightarrow> s | Some (c, x) \<Rightarrow> set_slot VOTES_PATH c s)"

definition busy_world :: world where
  "busy_world = example_world\<lparr>env := replicate 27 (Concurrent ledger_commit)\<rparr>"

text \<open>
  In \<open>race_world\<close> a second request, of the identity \<open>hA\<close> for the same item, runs while
  the first is between its reads and its writes: it reads the same documents, and both
  its writes are served before the first write of the request.
\<close>

definition other_vote :: "store \<Rightarrow> store" where
  "other_vote s = st (snd (processVote ''a1'' ''hA'' (example_world\<lparr>st := s\<rparr>)))"

definition race_world :: world where
  "race_world = example_world\<lparr>env := [Concurrent id, Concurrent id, Concurrent other_vote]\<rparr>"

text \<open>
  In \<open>overwrite_world\<close> the request of \<open>h1\<close> and a request of \<open>h2\<close> for the same item
  read the same documents; the ledger write of \<open>h1\<close> is served first, then the two
  writes of \<open>h2\<close>, then the aggregate write of \<open>h1\<close>. \<open>racing_vote\<close> is the request of
  \<open>h2\<close>: it reads the documents of the example, and the store it writes to is the
  store \<open>s\<close> that the ledger write of \<open>h1\<close> has left.
\<close>

definition racing_vote :: "store \<Rightarrow> store" where
  "racing_vote s =
     st (snd (processVote ''a1'' ''h2''
                (example_world\<lparr>env := [Concurrent id, Concurrent id, Concurrent (\<lambda>x. s)]\<rparr>)))"

definition overwrite_world :: world where
  "overwrite_world =
     example_world\<lparr>env := [Concurrent id, Concurrent id, Concurrent id, Concurrent racing_vote]\<rparr>"

subsection \<open>An item named like a built-in property\<close>

text \<open>
  The example of section 8 with the item id \<^verbatim>\<open>constructor\<close> in place of \<^verbatim>\<open>a1\<close>: the
  aggregate \<^verbatim>\<open>{entries:[{id:"constructor",votes:3}]}\<close> and the ledger \<^verbatim>\<open>{votes:{}}\<close>,
  with no other writer, in a process that has served no cast yet.
\<close>

definition constructor_world :: world where
  "constructor_world =
     example_world\<lparr>st := example_store\<lparr>data_file :=
        Some (BlogDoc \<lparr>entries = [example_entry\<lparr>entry_id := ''constructor''\<rparr>],
                       blog_rest = []\<rparr>, 0)\<rparr>\<rparr>"


section \<open>The store calls without another writer\<close>

lemma record_event_simps [simp]:
  "st (record_event e w) = st w" "env (record_event e w) = env w"
  "clock (record_event e w) = clock w" "log (record_event e w) = log w @ [e]"
  by (simp_all add: record_event_def)

lemma slot_set_slot [simp]:
  "slot p (set_slot q c s) = (if p = q then Some (c, next_sha s) else slot p s)"
  by (cases p; cases q) (simp_all add: slot_def set_slot_def)

lemma next_sha_set_slot [simp]: "next_sha (set_slot q c s) = next_sha s + 1"
  by (cases q) (simp_all add: set_slot_def)

lemma arrive_seq: "env w = [] \<Longrightarrow> arrive w = (None, w)"
  by (simp add: arrive_def)

lemma getGitHubFile_seq:
  "env w = [] \<Longrightarrow>
   getGitHubFile p w =
     (Inr (map_option fst (slot p (st w)), map_option snd (slot p (st w))),
      record_event (Get p (map_option fst (slot p (st w)))) w)"
  by (simp add: getGitHubFile_def getContent_def arrive_seq split: option.splits)

lemma createOrUpdate_seq:
  "env w = [] \<Longrightarrow> sha = map_option snd (slot p (st w)) \<Longrightarrow>
   createOrUpdateFileContents p c sha w =
     (Inr (), (record_event (Put p c sha) w)\<lparr>st := set_slot p c (st w)\<rparr>)"
  by (auto simp: createOrUpdateFileContents_def arrive_seq Let_def split: option.splits)

lemma updateGitHubFile_seq:
  "env w = [] \<Longrightarrow> sha = map_option snd (slot p (st w)) \<Longrightarrow>
   updateGitHubFile p c sha r w =
     (Inr (), (record_event (Put p c sha) w)\<lparr>st := set_slot p c (st w)\<rparr>)"
  by (subst updateGitHubFile.simps) (simp add: createOrUpdate_seq)

lemma read_both_seq:
  "env w = [] \<Longrightarrow>
   read_both w =
     (Inr ((map_option fst (data_file (st w)), map_option snd (data_file (st w))),
           (map_option fst (votes_file (st w)), map_option snd (votes_file (st w)))),
      w\<lparr>log := log w @ [Get DATA_PATH (map_option fst (data_file (st w))),
                          Get VOTES_PATH (map_option fst (votes_file (st w)))]\<rparr>)"
  by (simp add: read_both_def getGitHubFile_seq slot_def record_event_def)

lemma write_both_seq:
  "env w = [] \<Longrightarrow> vsha = map_option snd (votes_file (st w)) \<Longrightarrow>
   dsha = map_option snd (data_file (st w)) \<Longrightarrow>
   write_both vd vsha bd dsha w =
     (Inr (),
      w\<lparr>st := \<lparr>data_file = Some (BlogDoc bd, next_sha (st w) + 1),
                votes_file = Some (VotesDoc vd, next_sha (st w)),
                next_sha = next_sha (st w) + 2\<rparr>,
        log := log w @ [Put VOTES_PATH (VotesDoc vd) vsha, Put DATA_PATH (BlogDoc bd) dsha]\<rparr>)"
  by (simp add: write_both_def updateGitHubFile_seq slot_def set_slot_def record_event_def)


text \<open>
  In a process that has served no cast, and for an item that has a ledger object or
  whose id is not an inherited name, lines 135-149 of vote.js refuse the cast when the
  ledger has a time other than zero for the identity, and otherwise set the entry in
  the ledger and nothing else.
\<close>

lemma record_vote_ordinary:
  assumes "b \<notin> set inherited_names \<or> map_of (votes vd) b \<noteq> None"
  shows "record_vote [] (votes vd) b i t =
           (if has_voted (votes vd) b i then None else Some (votes (cast_ledger b i t vd), []))"
  using assms
  by (auto simp: record_vote_def get_item_def get_vote_def polluted_def runtime_props_def
                 has_voted_def cast_ledger_def Let_def update_last
           split: option.splits)




lemma puts_of_append [simp]: "puts_of (xs @ ys) = puts_of xs @ puts_of ys"
  by (induction xs rule: puts_of.induct) simp_all



lemma log_sleep [simp]: "log (sleep ms w) = log w @ [Sleep ms]"
  by (simp add: sleep_def)






















lemma unvote_attempt_seq_error:
  "env w = [] \<Longrightarrow> unvote_attempt b i w = (Inl err, w1) \<Longrightarrow> status err = None"
  by (auto simp: unvote_attempt_def read_both_seq write_both_seq Let_def
           split: option.splits content.splits if_splits)

lemma processUnvote_seq: "env w = [] \<Longrightarrow> processUnvote b i w = unvote_attempt b i w"
  unfolding processUnvote_def
  by (subst processUnvote_loop.simps)
     (auto simp: MAX_RETRIES_def split: prod.splits sum.splits dest: unvote_attempt_seq_error)

















lemma getGitHubFile_votes_seq:
  "env w = [] \<Longrightarrow>
   getGitHubFile_votes p w =
     (Inr (map_option fst (slot p (st w))),
      record_event (Get p (map_option fst (slot p (st w)))) w)"
  by (simp add: getGitHubFile_votes_def getContent_def arrive_seq split: option.splits)

lemma has_voted_castAt:
  "has_voted (ledger s) b i = (case castAt s b i of None \<Rightarrow> False | Some t \<Rightarrow> t \<noteq> 0)"
  by (simp add: has_voted_def castAt_def split: option.splits)

section \<open>Casting a vote twice\<close>

text \<open>
  Claim C1 does not hold of \<^verbatim>\<open>processVote\<close>. In \<open>overwrite_world\<close> the identities \<open>h1\<close> and
  \<open>h2\<close> cast for the item \<open>a1\<close>, whose count is 3, from the same reads. The ledger
  write of \<open>h1\<close> is served first; the ledger write of \<open>h2\<close> is refused with a 409, and
  \<^verbatim>\<open>updateGitHubFile\<close> sends the ledger it had computed from its first read again under
  the new version, without the entry of \<open>h1\<close>. The cast of \<open>h1\<close> succeeds and returns 4,
  nothing else is running when it returns, and the ledger has no entry of \<open>h1\<close> under
  the item. The second cast of \<open>h1\<close>, right after the first, succeeds as well: it
  returns 5 and the count of the item in the store is 5.
\<close>

theorem processVote_twice_overwritten:
  "(case processVote ''a1'' ''h1'' overwrite_world of
      (r1, w1) \<Rightarrow>
        (r1, length (env w1), voteCount (st w1) ''a1'', castAt (st w1) ''a1'' ''h1'',
         case processVote ''a1'' ''h1'' w1 of
           (r2, w2) \<Rightarrow> (r2, voteCount (st w2) ''a1'')))
   = (Inr (Success 4), 0, Some 4, None, Inr (Success 5), Some 5)"
  by code_simp


section \<open>Two casts at the same time\<close>

text \<open>
  Claim C2 does not hold of \<^verbatim>\<open>updateGitHubFile\<close>. After a conflict it reads the file
  again for its version only and sends the content it had computed from the first
  read once more, so the write of the other request is overwritten. In \<open>race_world\<close>
  the identities \<open>hA\<close> and \<open>hB\<close> cast for the item \<open>a1\<close>, whose count is 3, from the same
  reads: both calls succeed and both return 4, the count in the store is 4 and not 5,
  and the entry of \<open>hA\<close> is gone from the ledger.
\<close>

theorem processVote_lost_update:
  "fst (processVote ''a1'' ''hA'' example_world) = Inr (Success 4)
   \<and> (case processVote ''a1'' ''hB'' race_world of
        (r, w') \<Rightarrow> (r, voteCount (st w') ''a1'', castAt (st w') ''a1'' ''hA'',
                    castAt (st w') ''a1'' ''hB''))
      = (Inr (Success 4), Some 4, None, Some 1700000000000)"
  by code_simp


section \<open>The retry budget\<close>





section \<open>Retracting a vote when the ledger document is missing\<close>

text \<open>
  Claim C4, as amended. \<^verbatim>\<open>processUnvote\<close> does not read a missing ledger document as
  an empty ledger: when the aggregate document exists and the ledger document does
  not, the retraction throws the error \<^verbatim>\<open>Votes file not found\<close> after the two reads
  of its first attempt. The error carries no status, so it is not retried, and nothing
  is written.
\<close>

theorem processUnvote_missing_ledger:
  assumes "env w = []" and "data_file (st w) = Some (dc, x)" and "votes_file (st w) = None"
  shows "processUnvote b i w =
           (Inl (Error ''Votes file not found''),
            w\<lparr>log := log w @ [Get DATA_PATH (Some dc), Get VOTES_PATH None]\<rparr>)"
  using assms
  by (simp add: processUnvote_seq unvote_attempt_def read_both_seq)

theorem processUnvote_missing_ledger_witness:
  "processUnvote ''a1'' ''h1'' no_ledger_world =
     (Inl (Error ''Votes file not found''),
      no_ledger_world\<lparr>log := [Get DATA_PATH (Some (BlogDoc \<lparr>entries = [example_entry], blog_rest = []\<rparr>)),
                              Get VOTES_PATH None]\<rparr>)"
proof -
  have "env no_ledger_world = []"
    and "data_file (st no_ledger_world) = Some (BlogDoc \<lparr>entries = [example_entry], blog_rest = []\<rparr>, 0)"
    and "votes_file (st no_ledger_world) = None" and "log no_ledger_world = []"
    by (simp_all add: no_ledger_world_def example_world_def example_store_def)
  then show ?thesis
    using processUnvote_missing_ledger [of no_ledger_world _ 0 "''a1''" "''h1''"] by simp
qed

text \<open>
  The claim as stated fails at the example of the specification without its ledger
  document: the aggregate holds the item, and the retraction fails with the error, not
  with \<open>NotVoted\<close>.
\<close>

theorem processUnvote_missing_ledger_counterexample:
  "voteCount (st no_ledger_world) ''a1'' = Some 3
   \<and> votes_file (st no_ledger_world) = None
   \<and> fst (processUnvote ''a1'' ''h1'' no_ledger_world) = Inl (Error ''Votes file not found'')
   \<and> fst (processUnvote ''a1'' ''h1'' no_ledger_world) \<noteq> Inr NotVoted"
  by code_simp


section \<open>The rate limiter\<close>

lemma checkRateLimit_refuse:
  "MAX_VOTES_PER_WINDOW \<le> count (current_window now k rl) \<Longrightarrow> checkRateLimit now k rl = (False, rl)"
  by (auto simp: checkRateLimit_def current_window_def Let_def MAX_VOTES_PER_WINDOW_def
           split: option.splits if_splits)

lemma checkRateLimit_allow:
  "count (current_window now k rl) < MAX_VOTES_PER_WINDOW \<Longrightarrow>
     fst (checkRateLimit now k rl) = True \<and>
     map_of (snd (checkRateLimit now k rl)) =
       (map_of rl)(k \<mapsto> (current_window now k rl)\<lparr>count := count (current_window now k rl) + 1\<rparr>)"
  by (auto simp: checkRateLimit_def current_window_def Let_def update_conv'
           split: option.splits if_splits)

lemma allow_calls_within:
  "map_of rl k = Some u \<Longrightarrow> \<forall>t\<in>set ts. t - windowStart u \<le> RATE_LIMIT_WINDOW \<Longrightarrow>
     fst (allow_calls k ts rl) = map (\<lambda>i. count u + int i < MAX_VOTES_PER_WINDOW) [0..<length ts] \<and>
     map_of (snd (allow_calls k ts rl)) k =
       Some (u\<lparr>count := (if MAX_VOTES_PER_WINDOW \<le> count u then count u
                          else min MAX_VOTES_PER_WINDOW (count u + int (length ts)))\<rparr>)"
proof (induction ts arbitrary: rl u)
  case Nil
  then show ?case by simp
next
  case (Cons t ts)
  have cw: "current_window t k rl = u"
    using Cons.prems by (simp add: current_window_def)
  show ?case
  proof (cases "MAX_VOTES_PER_WINDOW \<le> count u")
    case True
    then have step: "checkRateLimit t k rl = (False, rl)"
      using checkRateLimit_refuse cw by simp
    have ih: "fst (allow_calls k ts rl) = map (\<lambda>i. count u + int i < MAX_VOTES_PER_WINDOW) [0..<length ts]
        \<and> map_of (snd (allow_calls k ts rl)) k = Some (u\<lparr>count := count u\<rparr>)"
      using Cons.IH [of rl u] Cons.prems True by simp
    have allF: "map (\<lambda>i. count u + int i < MAX_VOTES_PER_WINDOW) [0..<n] = replicate n False" for n
      using True by (induction n) (auto simp: replicate_append_same)
    show ?thesis
      using step ih True allF [of "length ts"] allF [of "Suc (length ts)"]
      by (simp add: split_beta del: upt_Suc replicate_Suc) (simp)
  next
    case False
    then have lt: "count (current_window t k rl) < MAX_VOTES_PER_WINDOW" using cw by simp
    obtain rl1 where step: "checkRateLimit t k rl = (True, rl1)"
      and m1: "map_of rl1 = (map_of rl)(k \<mapsto> u\<lparr>count := count u + 1\<rparr>)"
      using checkRateLimit_allow [OF lt] cw by (cases "checkRateLimit t k rl") auto
    let ?u = "u\<lparr>count := count u + 1\<rparr>"
    have ih: "fst (allow_calls k ts rl1) = map (\<lambda>i. count ?u + int i < MAX_VOTES_PER_WINDOW) [0..<length ts]
        \<and> map_of (snd (allow_calls k ts rl1)) k =
          Some (?u\<lparr>count := (if MAX_VOTES_PER_WINDOW \<le> count ?u then count ?u
                          else min MAX_VOTES_PER_WINDOW (count ?u + int (length ts)))\<rparr>)"
      using Cons.IH [of rl1 ?u] Cons.prems m1 by simp
    have shift: "map (\<lambda>i. count u + int i < MAX_VOTES_PER_WINDOW) [0..<Suc n]
        = (count u < MAX_VOTES_PER_WINDOW) # map (\<lambda>i. count ?u + int i < MAX_VOTES_PER_WINDOW) [0..<n]" for n
      by (simp add: map_upt_Suc add.assoc del: upt_Suc) 
    show ?thesis
      using step ih False shift [of "length ts"]
      by (auto simp: split_beta min_def simp del: upt_Suc)
  qed
qed


text \<open>
  Claim C5. The rate limiter counts in fixed windows of one hour with capacity 10.
  Every call first takes the identity's window, reset to \<open>{count: 0, windowStart: now}\<close>
  when \<open>now - windowStart\<close> exceeds the window; at capacity it answers false and leaves
  the map as it is; otherwise it answers true and stores the window with the count
  incremented. So of the calls of a new identity within one window exactly the first
  ten are allowed (the 11th is refused), and a call after the window has elapsed is
  allowed again, with the counter reset and then counting this call.
\<close>

theorem checkRateLimit_fixed_window:
  assumes fresh: "map_of rl k = None"
    and within: "\<forall>t\<in>set ts. t - t0 \<le> RATE_LIMIT_WINDOW"
    and elapsed: "RATE_LIMIT_WINDOW < t' - t0"
  shows "(if MAX_VOTES_PER_WINDOW \<le> count (current_window now k rl0)
          then checkRateLimit now k rl0 = (False, rl0)
          else fst (checkRateLimit now k rl0) = True \<and>
               map_of (snd (checkRateLimit now k rl0)) =
                 (map_of rl0)(k \<mapsto> \<lparr>count = count (current_window now k rl0) + 1,
                                    windowStart = windowStart (current_window now k rl0)\<rparr>))
       \<and> fst (allow_calls k (t0 # ts) rl) = map (\<lambda>i. i < 10) [0..<Suc (length ts)]
       \<and> map_of (snd (allow_calls k (t0 # ts) rl)) k =
            Some \<lparr>count = min 10 (1 + int (length ts)), windowStart = t0\<rparr>
       \<and> fst (checkRateLimit t' k (snd (allow_calls k (t0 # ts) rl))) = True
       \<and> map_of (snd (checkRateLimit t' k (snd (allow_calls k (t0 # ts) rl)))) k =
            Some \<lparr>count = 1, windowStart = t'\<rparr>"
proof -
  let ?u = "\<lparr>count = 1, windowStart = t0\<rparr>"
  let ?rl1 = "snd (checkRateLimit t0 k rl)"
  let ?rl2 = "snd (allow_calls k (t0 # ts) rl)"
  have cw0: "current_window t0 k rl = \<lparr>count = 0, windowStart = t0\<rparr>"
    using fresh by (simp add: current_window_def)
  have first: "fst (checkRateLimit t0 k rl) = True" "map_of ?rl1 k = Some ?u"
    using checkRateLimit_allow [of t0 k rl] cw0 by (simp_all add: MAX_VOTES_PER_WINDOW_def)
  have rest: "fst (allow_calls k ts ?rl1) = map (\<lambda>i. count ?u + int i < MAX_VOTES_PER_WINDOW) [0..<length ts]"
     "map_of (snd (allow_calls k ts ?rl1)) k =
        Some (?u\<lparr>count := (if MAX_VOTES_PER_WINDOW \<le> count ?u then count ?u
                          else min MAX_VOTES_PER_WINDOW (count ?u + int (length ts)))\<rparr>)"
    using allow_calls_within [OF first(2), of ts] within by simp_all
  have p1: "(if MAX_VOTES_PER_WINDOW \<le> count (current_window now k rl0)
          then checkRateLimit now k rl0 = (False, rl0)
          else fst (checkRateLimit now k rl0) = True \<and>
               map_of (snd (checkRateLimit now k rl0)) =
                 (map_of rl0)(k \<mapsto> \<lparr>count = count (current_window now k rl0) + 1,
                                    windowStart = windowStart (current_window now k rl0)\<rparr>))"
    using checkRateLimit_refuse [of now k rl0] checkRateLimit_allow [of now k rl0]
    by (cases "current_window now k rl0") auto
  have p2: "fst (allow_calls k (t0 # ts) rl) = map (\<lambda>i. i < 10) [0..<Suc (length ts)]"
  proof -
    have "map (\<lambda>i. i < 10) [0..<Suc (length ts)] = True # map (\<lambda>i. Suc i < 10) [0..<length ts]"
      by (simp add: map_upt_Suc del: upt_Suc)
    moreover have "(\<lambda>i. count ?u + int i < MAX_VOTES_PER_WINDOW) = (\<lambda>i. Suc i < 10)"
      by (auto simp: MAX_VOTES_PER_WINDOW_def)
    ultimately show ?thesis
      using first(1) rest(1) by (simp add: split_beta del: upt_Suc)
  qed
  have p3: "map_of ?rl2 k = Some \<lparr>count = min 10 (1 + int (length ts)), windowStart = t0\<rparr>"
    using rest(2) by (simp add: split_beta MAX_VOTES_PER_WINDOW_def)
  have cw': "current_window t' k ?rl2 = \<lparr>count = 0, windowStart = t'\<rparr>"
    using p3 elapsed by (simp add: current_window_def)
  have p4: "fst (checkRateLimit t' k ?rl2) = True"
       "map_of (snd (checkRateLimit t' k ?rl2)) k = Some \<lparr>count = 1, windowStart = t'\<rparr>"
    using checkRateLimit_allow [of t' k ?rl2] cw' by (simp_all add: MAX_VOTES_PER_WINDOW_def)
  show ?thesis using p1 p2 p3 p4 by blast
qed

theorem checkRateLimit_fixed_window_witness:
  "fst (allow_calls ''h1'' [0, 1, 2, 3, 4, 5, 6, 7, 8, 9, 3600000] []) =
     [True, True, True, True, True, True, True, True, True, True, False]
   \<and> checkRateLimit 3600000 ''h1'' (snd (allow_calls ''h1'' [0, 1, 2, 3, 4, 5, 6, 7, 8, 9] []))
       = (False, snd (allow_calls ''h1'' [0, 1, 2, 3, 4, 5, 6, 7, 8, 9] []))
   \<and> fst (checkRateLimit 3600001 ''h1''
        (snd (allow_calls ''h1'' [0, 1, 2, 3, 4, 5, 6, 7, 8, 9, 3600000] []))) = True
   \<and> map_of (snd (checkRateLimit 3600001 ''h1''
        (snd (allow_calls ''h1'' [0, 1, 2, 3, 4, 5, 6, 7, 8, 9, 3600000] [])))) ''h1''
       = Some \<lparr>count = 1, windowStart = 3600001\<rparr>"
proof -
  have fresh: "map_of ([] :: rateLimitMap) ''h1'' = None" by simp
  have within: "\<forall>t\<in>set [1, 2, 3, 4, 5, 6, 7, 8, 9, 3600000 :: int]. t - 0 \<le> RATE_LIMIT_WINDOW"
    by (simp add: RATE_LIMIT_WINDOW_def)
  have elapsed: "RATE_LIMIT_WINDOW < 3600001 - 0" by (simp add: RATE_LIMIT_WINDOW_def)
  have cw: "count (current_window 3600000 ''h1'' (snd (allow_calls ''h1'' [0, 1, 2, 3, 4, 5, 6, 7, 8, 9] []))) = 10"
    by (simp add: current_window_def checkRateLimit_def RATE_LIMIT_WINDOW_def MAX_VOTES_PER_WINDOW_def Let_def)
  show ?thesis
    using checkRateLimit_fixed_window [OF fresh within elapsed,
        of 3600000 "snd (allow_calls ''h1'' [0, 1, 2, 3, 4, 5, 6, 7, 8, 9] [])"] cw
    by (simp add: MAX_VOTES_PER_WINDOW_def upt_rec)
qed


section \<open>The count never goes below zero\<close>



section \<open>A successful cast\<close>

text \<open>
  Claim C7 does not hold of \<^verbatim>\<open>processVote\<close> for an item whose id is the name of a
  property that every object inherits. In \<open>constructor_world\<close> the item \<^verbatim>\<open>constructor\<close>
  has the count 3 and the ledger is empty. \<^verbatim>\<open>votesData.votes[blogId]\<close> finds the
  function \<open>Object\<close>, so no ledger object is created for the item and the time of the
  cast is assigned to a property of that function. The cast succeeds and returns 4,
  and the count in the store is 4, but the ledger it writes, its only write of that
  document, is the empty ledger it read: the store has no entry for the identity
  under the item. The time of the cast is kept by the process alone.
\<close>

theorem processVote_inherited_item:
  "(case processVote ''constructor'' ''h1'' constructor_world of
      (r, w') \<Rightarrow>
        (r, voteCount (st w') ''constructor'', castAt (st w') ''constructor'' ''h1'',
         ledger (st w'), puts_of (log w'), runtime w'))
   = (Inr (Success 4), Some 4, None, [],
      [(VOTES_PATH, VotesDoc \<lparr>votes = []\<rparr>),
       (DATA_PATH, BlogDoc \<lparr>entries = [\<lparr>entry_id = ''constructor'', entry_votes = Some 4,
                                          entry_rest = []\<rparr>],
                            blog_rest = []\<rparr>)],
      [(''constructor'', [(''h1'', 1700000000000)])])"
  by code_simp


section \<open>Only the count of the item changes\<close>




section \<open>Listing the votes\<close>

text \<open>
  Claim C9, as amended. The votes handler, on a \<^verbatim>\<open>GET\<close> with no other writer and an
  aggregate document in the store, reads the two documents, reads a missing ledger as
  empty, writes nothing, and answers for every entry of the aggregate, in order, its
  id, its count (zero when the field is absent) and a flag. The flag is the condition
  \<^verbatim>\<open>votes[entry.id]?.[ipHash] ? true : false\<close>: true when the ledger holds a time
  other than zero for the identity under that item, false when it holds none or holds
  zero.
\<close>

theorem votes_handler_lists:
  assumes "env w = []" and "req_method req = ''GET''"
    and "data_file (st w) = Some (BlogDoc bd, x)"
  shows "votes_handler hashIP req w =
           (Response 200 (EntriesBody
              (map (\<lambda>e. \<lparr>info_id = entry_id e,
                          info_votes = (case entry_votes e of None \<Rightarrow> 0 | Some v \<Rightarrow> v),
                          userVoted = (case castAt (st w) (entry_id e) (hashIP (ip req)) of
                                         None \<Rightarrow> False
                                       | Some t \<Rightarrow> t \<noteq> 0)\<rparr>)
                   (entries bd))),
            w\<lparr>log := log w @ [Get DATA_PATH (Some (BlogDoc bd)),
                               Get VOTES_PATH (map_option fst (votes_file (st w)))]\<rparr>)"
proof (cases "votes_file (st w)")
  case None
  then have "ledger (st w) = []" by (simp add: ledger_def ledger_doc_def)
  then show ?thesis
    using assms None
    by (simp add: votes_handler_def getGitHubFile_votes_seq slot_def Let_def
                  has_voted_castAt [symmetric] votes_or_0_def record_event_def)
next
  case (Some cx)
  obtain c y where cx: "cx = (c, y)" by (cases cx)
  have "(case c of VotesDoc vd \<Rightarrow> votes vd | BlogDoc d \<Rightarrow> []) = ledger (st w)"
    using Some cx by (simp add: ledger_def ledger_doc_def split: content.splits)
  then show ?thesis
    using assms Some cx
    by (simp add: votes_handler_def getGitHubFile_votes_seq slot_def Let_def
                  has_voted_castAt [symmetric] votes_or_0_def record_event_def
             split: content.splits)
qed

theorem votes_handler_lists_witness:
  "fst (votes_handler id get_request rich_world) =
     Response 200 (EntriesBody
       [\<lparr>info_id = ''a0'', info_votes = 7, userVoted = False\<rparr>,
        \<lparr>info_id = ''a1'', info_votes = 3, userVoted = True\<rparr>,
        \<lparr>info_id = ''a1'', info_votes = 0, userVoted = True\<rparr>])
   \<and> st (snd (votes_handler id get_request rich_world)) = st rich_world
   \<and> puts_of (log (snd (votes_handler id get_request rich_world))) = []"
proof -
  have e: "env rich_world = []" and m: "req_method get_request = ''GET''"
    and d: "data_file (st rich_world) = Some (BlogDoc
          \<lparr>entries = [\<lparr>entry_id = ''a0'', entry_votes = Some 7, entry_rest = [(''title'', ''Z'')]\<rparr>,
                      \<lparr>entry_id = ''a1'', entry_votes = Some 3, entry_rest = [(''title'', ''A'')]\<rparr>,
                      \<lparr>entry_id = ''a1'', entry_votes = None, entry_rest = [(''title'', ''B'')]\<rparr>],
           blog_rest = [(''updated'', ''2024'')]\<rparr>, 0)"
    and l: "log rich_world = []"
    by (simp_all add: rich_world_def rich_store_def get_request_def)
  have c: "castAt (st rich_world) ''a0'' ''h1'' = None"
     "castAt (st rich_world) ''a1'' ''h1'' = Some 1690000000000"
    by code_simp+
  show ?thesis
    using votes_handler_lists [OF e m d, of id] c l
    by (simp add: get_request_def)
qed

text \<open>
  The claim as stated, that the flag is true whenever the identity appears under the
  item, fails for a ledger that records the time zero: the identity appears, and the
  flag is false.
\<close>

theorem votes_handler_counterexample:
  "castAt (st epoch_world) ''a1'' ''h1'' = Some 0
   \<and> fst (votes_handler id get_request epoch_world)
       = Response 200 (EntriesBody [\<lparr>info_id = ''a1'', info_votes = 3, userVoted = False\<rparr>])"
  by code_simp


section \<open>A cast that passes the rate limiter is counted\<close>

text \<open>
  Claim C10. When a \<^verbatim>\<open>POST\<close> with an item id passes \<^verbatim>\<open>checkRateLimit\<close>, the map of
  the rate limiter after the request is the map \<^verbatim>\<open>checkRateLimit\<close> returned: the
  count of the identity's window is one more than it was at the call (after the reset
  of an expired window), whatever the store holds, whatever other writers do and
  whatever \<^verbatim>\<open>processVote\<close> returns or throws afterwards. The store is only touched by
  that call of \<^verbatim>\<open>processVote\<close>, which comes after the check and has no access to the map.
\<close>

theorem vote_handler_consumes_budget:
  assumes "req_method req = ''POST''" and "blogId req = Some b" and "b \<noteq> []"
    and "fst (checkRateLimit (clock w) (hashIP (ip req)) rl) = True"
  shows "fst (snd (vote_handler hashIP req rl w)) = snd (checkRateLimit (clock w) (hashIP (ip req)) rl)
       \<and> map_of (fst (snd (vote_handler hashIP req rl w))) (hashIP (ip req))
           = Some \<lparr>count = count (current_window (clock w) (hashIP (ip req)) rl) + 1,
                   windowStart = windowStart (current_window (clock w) (hashIP (ip req)) rl)\<rparr>
       \<and> snd (snd (vote_handler hashIP req rl w)) = snd (processVote b (hashIP (ip req)) w)"
proof -
  let ?k = "hashIP (ip req)"
  obtain rl1 where c: "checkRateLimit (clock w) ?k rl = (True, rl1)"
    using assms(4) by (cases "checkRateLimit (clock w) ?k rl") simp
  have lt: "count (current_window (clock w) ?k rl) < MAX_VOTES_PER_WINDOW"
  proof (rule ccontr)
    assume "\<not> count (current_window (clock w) ?k rl) < MAX_VOTES_PER_WINDOW"
    then have "checkRateLimit (clock w) ?k rl = (False, rl)"
      by (intro checkRateLimit_refuse) simp
    with c show False by simp
  qed
  have m: "map_of rl1 ?k = Some \<lparr>count = count (current_window (clock w) ?k rl) + 1,
                   windowStart = windowStart (current_window (clock w) ?k rl)\<rparr>"
    using checkRateLimit_allow [OF lt] c
    by (cases "current_window (clock w) ?k rl") simp
  have h: "fst (snd (vote_handler hashIP req rl w)) = rl1
       \<and> snd (snd (vote_handler hashIP req rl w)) = snd (processVote b ?k w)"
    using assms(1-3) c
    by (simp add: vote_handler_def Let_def split: prod.splits sum.splits result.splits)
  show ?thesis using h m c by simp
qed

text \<open>
  Four casts that fail after the check, each counted: one already voted, one for an
  unknown item, one that gives up on conflicts, one without the aggregate document.
\<close>

theorem vote_handler_consumes_budget_witness:
  "fst (vote_handler id (post_request ''a1'') [] (snd (processVote ''a1'' ''h1'' example_world)))
     = Response 400 (ResultBody AlreadyVoted)
   \<and> map_of (fst (snd (vote_handler id (post_request ''a1'') []
         (snd (processVote ''a1'' ''h1'' example_world))))) ''h1''
     = Some \<lparr>count = 1, windowStart = 1700000000000\<rparr>
   \<and> fst (vote_handler id (post_request ''zz'') [] example_world)
     = Response 500 (ErrorBody ''Failed to process vote'')
   \<and> map_of (fst (snd (vote_handler id (post_request ''zz'') [] example_world))) ''h1''
     = Some \<lparr>count = 1, windowStart = 1700000000000\<rparr>
   \<and> fst (vote_handler id (post_request ''a1'') [] busy_world)
     = Response 500 (ErrorBody ''Failed to process vote'')
   \<and> map_of (fst (snd (vote_handler id (post_request ''a1'') [] busy_world))) ''h1''
     = Some \<lparr>count = 1, windowStart = 1700000000000\<rparr>
   \<and> fst (vote_handler id (post_request ''a1'') [] no_data_world)
     = Response 500 (ErrorBody ''Failed to process vote'')
   \<and> map_of (fst (snd (vote_handler id (post_request ''a1'') [] no_data_world))) ''h1''
     = Some \<lparr>count = 1, windowStart = 1700000000000\<rparr>"
proof -
  have r: "req_method (post_request b) = ''POST''" "blogId (post_request b) = Some b"
    "ip (post_request b) = ''h1''" for b
    by (simp_all add: post_request_def)
  have ck: "clock (snd (processVote ''a1'' ''h1'' example_world)) = 1700000000000"
    "clock example_world = 1700000000000" "clock busy_world = 1700000000000"
    "clock no_data_world = 1700000000000"
    by code_simp+
  have al: "fst (checkRateLimit 1700000000000 ''h1'' []) = True"
    and cw: "current_window 1700000000000 ''h1'' [] = \<lparr>count = 0, windowStart = 1700000000000\<rparr>"
    by (simp_all add: checkRateLimit_def current_window_def MAX_VOTES_PER_WINDOW_def
                      RATE_LIMIT_WINDOW_def)
  have resp:
    "fst (vote_handler id (post_request ''a1'') [] (snd (processVote ''a1'' ''h1'' example_world)))
       = Response 400 (ResultBody AlreadyVoted)"
    "fst (vote_handler id (post_request ''zz'') [] example_world)
       = Response 500 (ErrorBody ''Failed to process vote'')"
    "fst (vote_handler id (post_request ''a1'') [] busy_world)
       = Response 500 (ErrorBody ''Failed to process vote'')"
    "fst (vote_handler id (post_request ''a1'') [] no_data_world)
       = Response 500 (ErrorBody ''Failed to process vote'')"
    by code_simp+
  have g: "map_of (fst (snd (vote_handler id (post_request b) [] w))) ''h1''
             = Some \<lparr>count = 1, windowStart = 1700000000000\<rparr>"
    if "b \<noteq> []" and "clock w = 1700000000000" for b w
  proof -
    have "fst (checkRateLimit (clock w) (id (ip (post_request b))) []) = True"
      using that(2) by (simp add: r al)
    from vote_handler_consumes_budget [of "post_request b" b w id "[]", OF r(1) r(2) that(1) this,
        THEN conjunct2, THEN conjunct1]
    show ?thesis using that(2) by (simp add: r cw)
  qed
  show ?thesis
    using g [of "''a1''", OF _ ck(1)] g [of "''zz''", OF _ ck(2)]
          g [of "''a1''", OF _ ck(3)] g [of "''a1''", OF _ ck(4)] resp
    by simp
qed

end
